theory Spec2Isabelle
  imports Complex_Main
begin

section \<open>Stripe subscription lifecycle and webhook reconciliation\<close>

text \<open>
  A shallow embedding of \<^verbatim>\<open>exports.handler\<close> of
  \<^verbatim>\<open>netlify/functions/stripe-payments.js\<close> and of the two tables it writes,
  \<^verbatim>\<open>users\<close> and \<^verbatim>\<open>payments\<close> of the SQL schema.

  Conventions.
  \<^item> A nullable column, a JavaScript value that may be \<^verbatim>\<open>null\<close> or
    \<^verbatim>\<open>undefined\<close>, is an \<open>option\<close>.
  \<^item> The time value of a JavaScript \<^verbatim>\<open>Date\<close> and a \<^verbatim>\<open>TIMESTAMP\<close> column are
    the number of milliseconds since the epoch, an \<open>int\<close>; an invalid \<^verbatim>\<open>Date\<close>
    and \<^verbatim>\<open>NULL\<close> are \<open>None\<close>. Stripe's timestamps are integers, in seconds.
  \<^item> Stripe's amounts are integers (minor units). The quotient \<^verbatim>\<open>x / 100\<close> is kept
    exact, as a \<open>rat\<close>: the double that JavaScript computes prints back as the decimal
    with two places that \<^verbatim>\<open>DECIMAL(10,2)\<close> stores, when the column has room for it.
  \<^item> Stripe's ids have at most 255 characters, the width of their columns; the widths of
    the text columns are not modelled.
  \<^item> Of \<^verbatim>\<open>users\<close>, the record has the columns the handler reads or writes. The
    column \<^verbatim>\<open>updated_at\<close>, which a trigger sets on every row an \<^verbatim>\<open>UPDATE\<close>
    changes, is among those left out: the properties below name the columns they are
    about and state that a row is unchanged only where no \<^verbatim>\<open>UPDATE\<close> reaches it.
  \<^item> The columns \<^verbatim>\<open>id\<close> and \<^verbatim>\<open>created_at\<close> of \<^verbatim>\<open>payments\<close> are
    filled by the store's defaults and are left out; the table is the list of its rows in
    insertion order.
  \<^item> An exception is its \<^verbatim>\<open>message\<close>, a string.
\<close>

subsection \<open>The tables\<close>

record user =
  uid :: string
  email :: string
  stripe_customer_id :: "string option"
  stripe_subscription_id :: "string option"
  subscription_plan :: "string option"
  subscription_status :: "string option"
  trial_ends_at :: "int option"
  subscription_ends_at :: "int option"

record payment =
  client_id :: "string option"
  stripe_invoice_id :: "string option"
  stripe_charge_id :: "string option"
  amount :: rat
  status :: string
  invoice_url :: "string option"
  failure_reason :: "string option"
  paid_at :: "int option"

record database =
  users :: "user list"
  payments :: "payment list"

text \<open>
  \<^verbatim>\<open>client_id UUID REFERENCES users(id)\<close>: a row whose \<^verbatim>\<open>client_id\<close> is not
  null must name a row of \<^verbatim>\<open>users\<close>.
\<close>

definition references_users :: "database \<Rightarrow> string option \<Rightarrow> bool" where
  "references_users db c =
     (case c of None \<Rightarrow> True | Some i \<Rightarrow> i \<in> set (map uid (users db)))"

subsection \<open>Dates\<close>

text \<open>
  \<^verbatim>\<open>new Date(ms)\<close>: the time value \<^verbatim>\<open>ms\<close>, or an invalid date when it lies more
  than 8.64e15 milliseconds from the epoch.
\<close>

definition new_Date :: "int \<Rightarrow> int option" where
  "new_Date ms = (if \<bar>ms\<bar> \<le> 8640000000000000 then Some ms else None)"

text \<open>
  \<^verbatim>\<open>new Date(seconds * 1000)\<close>; \<^verbatim>\<open>null * 1000\<close> is \<^verbatim>\<open>0\<close> in JavaScript.
\<close>

definition date_of_seconds :: "int option \<Rightarrow> int option" where
  "date_of_seconds s = new_Date ((case s of None \<Rightarrow> 0 | Some t \<Rightarrow> t) * 1000)"

text \<open>
  What a \<^verbatim>\<open>TIMESTAMP\<close> column makes of a date in the request body. An invalid date
  is serialised as \<^verbatim>\<open>null\<close> and stored as \<^verbatim>\<open>NULL\<close>. Any other date is serialised
  by \<^verbatim>\<open>toISOString\<close>: with a four-digit year from 0000 to 9999, with a sign and six
  digits (\<^verbatim>\<open>+010000-...\<close>) outside. The store reads the four-digit years from 0001 on,
  that is 0001-01-01T00:00:00.000Z to 9999-12-31T23:59:59.999Z; it rejects the statement
  that carries any other string.
\<close>

definition timestamp_accepted :: "int option \<Rightarrow> bool" where
  "timestamp_accepted d =
     (case d of None \<Rightarrow> True
      | Some ms \<Rightarrow> - 62135596800000 \<le> ms \<and> ms \<le> 253402300799999)"

subsection \<open>The store\<close>

text \<open>
  \<^verbatim>\<open>amount DECIMAL(10,2)\<close> has eight digits before the point: the store rejects a row
  whose amount, a whole number of hundredths here, reaches 100000000 on either side.
\<close>

definition payment_accepted :: "database \<Rightarrow> payment \<Rightarrow> bool" where
  "payment_accepted db row =
     (references_users db (client_id row)
      \<and> \<bar>amount row\<bar> < 100000000
      \<and> timestamp_accepted (paid_at row))"

text \<open>
  \<^verbatim>\<open>await supabase.from('payments').insert(row)\<close>. The table has no unique constraint
  on \<^verbatim>\<open>stripe_invoice_id\<close>; its only unique column besides the key,
  \<^verbatim>\<open>stripe_payment_intent_id\<close>, is never written by the handler. The store rejects a
  row that breaks the foreign key, whose amount overflows or whose date it cannot read;
  the client then resolves to an object with an \<^verbatim>\<open>error\<close> field, which the handler
  does not read, so a rejected insert is the unchanged database.
\<close>

definition insert_payment :: "database \<Rightarrow> payment \<Rightarrow> database" where
  "insert_payment db row =
     (if payment_accepted db row
      then db\<lparr>payments := payments db @ [row]\<rparr>
      else db)"

text \<open>
  \<^verbatim>\<open>await supabase.from('users').update(values).eq(column, value)\<close>: every row the
  filter selects gets the new values. An update whose values carry a date is guarded by
  \<open>timestamp_accepted\<close> where the handler issues it: as with the insert, the store
  rejects the whole statement and the handler does not read the error.
\<close>

definition update_users :: "(user \<Rightarrow> bool) \<Rightarrow> (user \<Rightarrow> user) \<Rightarrow> database \<Rightarrow> database" where
  "update_users sel upd db =
     db\<lparr>users := map (\<lambda>u. if sel u then upd u else u) (users db)\<rparr>"

text \<open>
  \<^verbatim>\<open>.select(...).eq('id', v).single()\<close>: the row when exactly one row matches,
  \<^verbatim>\<open>data: null\<close> otherwise.
\<close>

definition single :: "'a list \<Rightarrow> 'a option" where
  "single rows = (case rows of [r] \<Rightarrow> Some r | _ \<Rightarrow> None)"

definition select_user :: "database \<Rightarrow> string \<Rightarrow> user option" where
  "select_user db i = single (filter (\<lambda>u. uid u = i) (users db))"

subsection \<open>Stripe's event payloads\<close>

text \<open>
  The fields of \<^verbatim>\<open>stripeEvent.data.object\<close> that the handler reads. Stripe sends
  \<^verbatim>\<open>metadata\<close>, \<^verbatim>\<open>status_transitions\<close> and \<^verbatim>\<open>lines\<close> with every invoice, so
  the handler's reads of \<^verbatim>\<open>metadata.user_id\<close>, \<^verbatim>\<open>status_transitions.paid_at\<close> and
  \<^verbatim>\<open>lines.data\<close> succeed; \<^verbatim>\<open>metadata.user_id\<close> is \<open>None\<close> when the key is not
  set, and \<^verbatim>\<open>lines.data\<close> is an array.
\<close>

record checkout_session =
  session_customer :: string
  session_subscription :: "string option"

record invoice_line =
  period_start :: int
  period_end :: int

record payment_error =
  message :: "string option"

record invoice =
  invoice_id :: string
  invoice_customer :: string
  metadata_user_id :: "string option"
  charge :: "string option"
  amount_paid :: int
  amount_due :: int
  hosted_invoice_url :: "string option"
  status_transitions_paid_at :: "int option"
  lines_data :: "invoice_line list"
  last_payment_error :: "payment_error option"

record subscription =
  subscription_customer :: string
  ended_at :: "int option"

text \<open>
  \<^verbatim>\<open>stripeEvent.type\<close> together with the object Stripe sends under that type; every
  type the \<^verbatim>\<open>switch\<close> has no case for is \<open>OtherEvent\<close>.
\<close>

datatype event_data =
    CheckoutSessionCompleted checkout_session
  | InvoicePaymentSucceeded invoice
  | InvoicePaymentFailed invoice
  | CustomerSubscriptionDeleted subscription
  | OtherEvent string

record stripe_event =
  event_id :: string
  created :: int
  event_data :: event_data

subsection \<open>The switch on the event type\<close>

definition succeeded_payment :: "invoice \<Rightarrow> payment" where
  "succeeded_payment invoice =
     \<lparr>client_id = metadata_user_id invoice,
      stripe_invoice_id = Some (invoice_id invoice),
      stripe_charge_id = charge invoice,
      amount = of_int (amount_paid invoice) / 100,
      status = ''succeeded'',
      invoice_url = hosted_invoice_url invoice,
      failure_reason = None,
      paid_at = date_of_seconds (status_transitions_paid_at invoice)\<rparr>"

definition failed_payment :: "invoice \<Rightarrow> payment" where
  "failed_payment invoice =
     \<lparr>client_id = metadata_user_id invoice,
      stripe_invoice_id = Some (invoice_id invoice),
      stripe_charge_id = None,
      amount = of_int (amount_due invoice) / 100,
      status = ''failed'',
      invoice_url = None,
      failure_reason = (case last_payment_error invoice of None \<Rightarrow> None | Some e \<Rightarrow> message e),
      paid_at = None\<rparr>"

definition has_customer :: "string \<Rightarrow> user \<Rightarrow> bool" where
  "has_customer c u = (stripe_customer_id u = Some c)"

text \<open>
  The body of \<^verbatim>\<open>switch (stripeEvent.type)\<close>: the database after it, and the message
  of the exception that ended it, if one did. In the case
  \<^verbatim>\<open>invoice.payment_succeeded\<close> the argument of \<^verbatim>\<open>update\<close> reads
  \<^verbatim>\<open>invoice.lines.data[0].period.end\<close> after the insert was awaited; on an empty
  \<^verbatim>\<open>lines.data\<close> that is a \<^verbatim>\<open>TypeError\<close>. An insert or an update that the store
  rejects raises nothing: the handler goes on and answers as if it had been applied.
\<close>

definition switch_event :: "database \<Rightarrow> stripe_event \<Rightarrow> database \<times> string option" where
  "switch_event db stripeEvent =
     (case event_data stripeEvent of
        CheckoutSessionCompleted session \<Rightarrow>
          (update_users (has_customer (session_customer session))
             (\<lambda>u. u\<lparr>stripe_subscription_id := session_subscription session,
                    subscription_status := Some ''active'',
                    subscription_plan := Some ''premium''\<rparr>) db,
           None)
      | InvoicePaymentSucceeded invoice \<Rightarrow>
          (let db1 = insert_payment db (succeeded_payment invoice) in
           case lines_data invoice of
             [] \<Rightarrow> (db1, Some ''Cannot read properties of undefined (reading 'period')'')
           | line # _ \<Rightarrow>
               (let ends = date_of_seconds (Some (period_end line)) in
                (if timestamp_accepted ends
                 then update_users (has_customer (invoice_customer invoice))
                        (\<lambda>u. u\<lparr>subscription_status := Some ''active'',
                               subscription_ends_at := ends\<rparr>) db1
                 else db1,
                 None)))
      | InvoicePaymentFailed failedInvoice \<Rightarrow>
          (update_users (has_customer (invoice_customer failedInvoice))
             (\<lambda>u. u\<lparr>subscription_status := Some ''past_due''\<rparr>)
             (insert_payment db (failed_payment failedInvoice)),
           None)
      | CustomerSubscriptionDeleted sub \<Rightarrow>
          (let ends = date_of_seconds (ended_at sub) in
           (if timestamp_accepted ends
            then update_users (has_customer (subscription_customer sub))
                   (\<lambda>u. u\<lparr>subscription_status := Some ''cancelled'',
                          subscription_ends_at := ends\<rparr>) db
            else db,
            None))
      | OtherEvent t \<Rightarrow> (db, None))"

subsection \<open>The collaborators\<close>

text \<open>
  What the handler calls and this repository does not define: \<^verbatim>\<open>jwt.verify\<close>,
  \<^verbatim>\<open>JSON.parse\<close> with the destructuring of its result, the Stripe SDK and the two
  environment variables. A call that throws is \<open>Inl\<close> of the exception's message
  (\<open>None\<close> for \<^verbatim>\<open>jwt.verify\<close>, whose exception \<^verbatim>\<open>verifyToken\<close> swallows).
\<close>

record token =
  userId :: string
  role :: string

record checkout_request =
  priceId :: "string option"
  successUrl :: "string option"
  cancelUrl :: "string option"

record session_params =
  customer :: string
  price :: "string option"
  success_url :: "string option"
  cancel_url :: "string option"
  trial_period_days :: nat
  subscription_metadata_user_id :: string

record created_session =
  url :: "string option"
  session_id :: string

datatype stripe_call =
    CustomersCreate string string
  | CheckoutSessionsCreate session_params
  | BillingPortalSessionsCreate string string

record collaborators =
  jwt_verify :: "string \<Rightarrow> token option"
  json_parse :: "string \<Rightarrow> string + checkout_request"
  STRIPE_WEBHOOK_SECRET :: "string option"
  SITE_URL :: "string option"
  constructEvent :: "string \<Rightarrow> string option \<Rightarrow> string option \<Rightarrow> string + stripe_event"
  customers_create :: "string \<Rightarrow> string \<Rightarrow> string + string"
  checkout_sessions_create :: "session_params \<Rightarrow> string + created_session"
  billingPortal_sessions_create :: "string \<Rightarrow> string \<Rightarrow> string + string"

subsection \<open>Requests and responses\<close>

record netlify_event =
  httpMethod :: string
  path :: string
  authorization :: "string option"
  stripe_signature :: "string option"
  event_body :: string

datatype response_body =
    Empty
  | Error string
  | Received bool
  | Checkout "string option" string
  | Portal string
  | Status "(string option \<times> string option \<times> int option \<times> int option) option"

record response =
  statusCode :: nat
  body :: response_body

text \<open>
  What one invocation leaves behind: the response, the database, and the calls made to
  Stripe's API, in order. The response headers are the same constant on every path and
  are left out.
\<close>

record outcome =
  response :: response
  database_after :: database
  stripe_calls :: "stripe_call list"

definition respond :: "nat \<Rightarrow> response_body \<Rightarrow> database \<Rightarrow> stripe_call list \<Rightarrow> outcome" where
  "respond code b db calls =
     \<lparr>response = \<lparr>statusCode = code, body = b\<rparr>, database_after = db, stripe_calls = calls\<rparr>"

text \<open>The \<^verbatim>\<open>catch (error)\<close> around every route: status 500 with \<^verbatim>\<open>error.message\<close>.\<close>

definition caught :: "string \<Rightarrow> database \<Rightarrow> stripe_call list \<Rightarrow> outcome" where
  "caught error_message db calls = respond 500 (Error error_message) db calls"

text \<open>\<^verbatim>\<open>String.prototype.replace\<close> with a string pattern: the first occurrence only.\<close>

fun replace :: "string \<Rightarrow> string \<Rightarrow> string \<Rightarrow> string" where
  "replace pattern replacement [] = (if pattern = [] then replacement else [])"
| "replace pattern replacement (c # cs) =
     (if take (length pattern) (c # cs) = pattern
      then replacement @ drop (length pattern) (c # cs)
      else c # replace pattern replacement cs)"

definition route :: "netlify_event \<Rightarrow> string" where
  "route event = replace ''/.netlify/functions/stripe-payments/'' [] (path event)"

subsection \<open>Authentication\<close>

definition verifyToken :: "collaborators \<Rightarrow> string option \<Rightarrow> token option" where
  "verifyToken env authHeader =
     (case authHeader of
        None \<Rightarrow> None
      | Some h \<Rightarrow>
          if h = [] \<or> take 7 h \<noteq> ''Bearer '' then None
          else jwt_verify env (drop 7 h))"

subsection \<open>The routes\<close>

text \<open>
  \<^verbatim>\<open>if (userData.stripe_customer_id)\<close>: \<^verbatim>\<open>null\<close> and the empty string are falsy.
\<close>

definition truthy :: "string option \<Rightarrow> bool" where
  "truthy v = (case v of None \<Rightarrow> False | Some s \<Rightarrow> s \<noteq> [])"

definition create_session ::
  "collaborators \<Rightarrow> database \<Rightarrow> stripe_call list \<Rightarrow> token \<Rightarrow> checkout_request \<Rightarrow> string \<Rightarrow> outcome" where
  "create_session env db calls user req customerId =
     (let params = \<lparr>customer = customerId, price = priceId req,
                     success_url = successUrl req, cancel_url = cancelUrl req,
                     trial_period_days = 14, subscription_metadata_user_id = userId user\<rparr>;
          calls' = calls @ [CheckoutSessionsCreate params]
      in case checkout_sessions_create env params of
           Inl m \<Rightarrow> caught m db calls'
         | Inr session \<Rightarrow> respond 200 (Checkout (url session) (session_id session)) db calls')"

definition create_checkout :: "collaborators \<Rightarrow> database \<Rightarrow> netlify_event \<Rightarrow> outcome" where
  "create_checkout env db event =
     (case verifyToken env (authorization event) of
        None \<Rightarrow> respond 401 (Error ''Unauthorized'') db []
      | Some user \<Rightarrow>
         (case json_parse env (event_body event) of
            Inl m \<Rightarrow> caught m db []
          | Inr req \<Rightarrow>
             (case select_user db (userId user) of
                None \<Rightarrow> caught ''Cannot read properties of null (reading 'stripe_customer_id')'' db []
              | Some userData \<Rightarrow>
                  if truthy (stripe_customer_id userData)
                  then create_session env db [] user req (the (stripe_customer_id userData))
                  else
                    (case customers_create env (email userData) (userId user) of
                       Inl m \<Rightarrow> caught m db [CustomersCreate (email userData) (userId user)]
                     | Inr customerId \<Rightarrow>
                         create_session env
                           (update_users (\<lambda>u. uid u = userId user)
                              (\<lambda>u. u\<lparr>stripe_customer_id := Some customerId\<rparr>) db)
                           [CustomersCreate (email userData) (userId user)]
                           user req customerId))))"

definition webhook :: "collaborators \<Rightarrow> database \<Rightarrow> netlify_event \<Rightarrow> outcome" where
  "webhook env db event =
     (case constructEvent env (event_body event) (stripe_signature event)
             (STRIPE_WEBHOOK_SECRET env) of
        Inl err \<Rightarrow> respond 400 (Error ''Invalid signature'') db []
      | Inr stripeEvent \<Rightarrow>
         (case switch_event db stripeEvent of
            (db', Some m) \<Rightarrow> caught m db' []
          | (db', None) \<Rightarrow> respond 200 (Received True) db' []))"

text \<open>
  \<^verbatim>\<open>process.env.SITE_URL + '/dashboard'\<close>: an unset variable is \<^verbatim>\<open>undefined\<close>,
  which the concatenation prints.
\<close>

definition concat_env :: "string option \<Rightarrow> string \<Rightarrow> string" where
  "concat_env v suffix = (case v of None \<Rightarrow> ''undefined'' | Some s \<Rightarrow> s) @ suffix"

definition customer_portal :: "collaborators \<Rightarrow> database \<Rightarrow> netlify_event \<Rightarrow> outcome" where
  "customer_portal env db event =
     (case verifyToken env (authorization event) of
        None \<Rightarrow> respond 401 (Error ''Unauthorized'') db []
      | Some user \<Rightarrow>
         (case select_user db (userId user) of
            None \<Rightarrow> caught ''Cannot read properties of null (reading 'stripe_customer_id')'' db []
          | Some userData \<Rightarrow>
              if \<not> truthy (stripe_customer_id userData)
              then respond 400 (Error ''No subscription found'') db []
              else
                (let c = the (stripe_customer_id userData);
                     return_url = concat_env (SITE_URL env) ''/dashboard'';
                     calls = [BillingPortalSessionsCreate c return_url]
                 in case billingPortal_sessions_create env c return_url of
                      Inl m \<Rightarrow> caught m db calls
                    | Inr u \<Rightarrow> respond 200 (Portal u) db calls)))"

definition subscription_status_route :: "collaborators \<Rightarrow> database \<Rightarrow> netlify_event \<Rightarrow> outcome" where
  "subscription_status_route env db event =
     (case verifyToken env (authorization event) of
        None \<Rightarrow> respond 401 (Error ''Unauthorized'') db []
      | Some user \<Rightarrow>
          respond 200
            (Status (map_option
               (\<lambda>u. (subscription_status u, subscription_plan u,
                     subscription_ends_at u, trial_ends_at u))
               (select_user db (userId user))))
            db [])"

definition handler :: "collaborators \<Rightarrow> database \<Rightarrow> netlify_event \<Rightarrow> outcome" where
  "handler env db event =
     (if httpMethod event = ''OPTIONS'' then respond 200 Empty db []
      else if route event = ''create-checkout'' \<and> httpMethod event = ''POST''
        then create_checkout env db event
      else if route event = ''webhook'' \<and> httpMethod event = ''POST''
        then webhook env db event
      else if route event = ''customer-portal'' \<and> httpMethod event = ''POST''
        then customer_portal env db event
      else if route event = ''subscription-status'' \<and> httpMethod event = ''GET''
        then subscription_status_route env db event
      else respond 404 (Error ''Not found'') db [])"

subsection \<open>Measures and sample data\<close>

text \<open>
  Nothing from here on is part of the program. \<open>unix_time\<close> (a time in seconds
  from 1970-01-01T00:00:00Z to 9999-12-31T23:59:59Z), \<open>unix_time_or_null\<close>,
  \<open>records_of_invoice\<close>, \<open>subject_customer\<close>, \<open>selects\<close>,
  \<open>status_written\<close>, \<open>date_in_range\<close> (the date that the event's update writes,
  if it writes one, is read from the event and is such a time) and
  \<open>keeps_references\<close> are used to state properties; the accounts, invoices, events,
  requests and the stand-in \<open>stub\<close> for the collaborators (it accepts the one signature
  \<^verbatim>\<open>t=1,v1=good\<close> and then returns the given event) are the data on which the
  properties are evaluated.
\<close>

definition unix_time :: "int \<Rightarrow> bool" where
  "unix_time t = (0 \<le> t \<and> t \<le> 253402300799)"



definition alice :: user where
  "alice = \<lparr>uid = ''u1'', email = ''alice@example.com'',
            stripe_customer_id = Some ''cus_1'', stripe_subscription_id = Some ''sub_1'',
            subscription_plan = Some ''basic'', subscription_status = Some ''active'',
            trial_ends_at = None, subscription_ends_at = Some 2000000\<rparr>"

definition bob :: user where
  "bob = \<lparr>uid = ''u2'', email = ''bob@example.com'',
          stripe_customer_id = Some ''cus_2'', stripe_subscription_id = None,
          subscription_plan = Some ''trial'', subscription_status = Some ''trialing'',
          trial_ends_at = Some 900000, subscription_ends_at = None\<rparr>"

definition one_account :: database where
  "one_account = \<lparr>users = [alice], payments = []\<rparr>"

definition two_accounts :: database where
  "two_accounts = \<lparr>users = [alice, bob], payments = []\<rparr>"

definition invoice_1 :: invoice where
  "invoice_1 = \<lparr>invoice_id = ''in_1'', invoice_customer = ''cus_1'',
                metadata_user_id = Some ''u1'', charge = Some ''ch_1'',
                amount_paid = 7900, amount_due = 7900,
                hosted_invoice_url = Some ''https://invoice.stripe.com/i/in_1'',
                status_transitions_paid_at = Some 1000,
                lines_data = [\<lparr>period_start = 400, period_end = 1000\<rparr>],
                last_payment_error = Some \<lparr>message = Some ''card_declined''\<rparr>\<rparr>"

definition paid_1 :: stripe_event where
  "paid_1 = \<lparr>event_id = ''evt_1'', created = 1000, event_data = InvoicePaymentSucceeded invoice_1\<rparr>"

definition cancelled_1 :: stripe_event where
  "cancelled_1 = \<lparr>event_id = ''evt_2'', created = 2000,
       event_data = CustomerSubscriptionDeleted \<lparr>subscription_customer = ''cus_1'', ended_at = Some 2000\<rparr>\<rparr>"

definition completed_2 :: stripe_event where
  "completed_2 = \<lparr>event_id = ''evt_4'', created = 500,
       event_data = CheckoutSessionCompleted
         \<lparr>session_customer = ''cus_2'', session_subscription = Some ''sub_2''\<rparr>\<rparr>"

definition failed_1 :: stripe_event where
  "failed_1 = \<lparr>event_id = ''evt_3'', created = 1000, event_data = InvoicePaymentFailed invoice_1\<rparr>"

definition carol :: user where
  "carol = \<lparr>uid = ''u3'', email = ''carol@example.com'',
            stripe_customer_id = None, stripe_subscription_id = None,
            subscription_plan = Some ''trial'', subscription_status = Some ''trialing'',
            trial_ends_at = Some 900000, subscription_ends_at = None\<rparr>"

definition no_customer_yet :: database where
  "no_customer_yet = \<lparr>users = [carol], payments = []\<rparr>"

definition failed_unknown_client :: stripe_event where
  "failed_unknown_client = \<lparr>event_id = ''evt_5'', created = 1000,
       event_data = InvoicePaymentFailed (invoice_1\<lparr>metadata_user_id := Some ''u9''\<rparr>)\<rparr>"

definition paid_no_lines :: stripe_event where
  "paid_no_lines = \<lparr>event_id = ''evt_6'', created = 1000,
       event_data = InvoicePaymentSucceeded (invoice_1\<lparr>lines_data := []\<rparr>)\<rparr>"

definition failed_3 :: stripe_event where
  "failed_3 = \<lparr>event_id = ''evt_7'', created = 1000,
       event_data = InvoicePaymentFailed
         (invoice_1\<lparr>invoice_customer := ''cus_3'', metadata_user_id := Some ''u3''\<rparr>)\<rparr>"

definition stub :: "stripe_event \<Rightarrow> collaborators" where
  "stub e =
     \<lparr>jwt_verify = (\<lambda>t. if t = ''token-u3'' then Some \<lparr>userId = ''u3'', role = ''client''\<rparr>
                        else if t = ''token-u1'' then Some \<lparr>userId = ''u1'', role = ''client''\<rparr>
                        else None),
      json_parse = (\<lambda>b. if b = [] then Inl ''Unexpected end of JSON input''
                        else Inr \<lparr>priceId = Some ''price_1'',
                                 successUrl = Some ''https://app.example.com/ok'',
                                 cancelUrl = Some ''https://app.example.com/back''\<rparr>),
      STRIPE_WEBHOOK_SECRET = Some ''whsec_1'',
      SITE_URL = Some ''https://app.example.com'',
      constructEvent = (\<lambda>payload sig secret.
         if sig = Some ''t=1,v1=good'' \<and> secret = Some ''whsec_1'' then Inr e
         else Inl ''No signatures found matching the expected signature for payload''),
      customers_create = (\<lambda>mail user_id. Inr (''cus_for_'' @ user_id)),
      checkout_sessions_create = (\<lambda>p. Inr \<lparr>url = Some ''https://checkout.stripe.com/c/cs_1'',
                                            session_id = ''cs_1''\<rparr>),
      billingPortal_sessions_create = (\<lambda>c r. Inr ''https://billing.stripe.com/p/1'')\<rparr>"

definition webhook_request :: "string option \<Rightarrow> netlify_event" where
  "webhook_request sig =
     \<lparr>httpMethod = ''POST'', path = ''/.netlify/functions/stripe-payments/webhook'',
      authorization = None, stripe_signature = sig, event_body = ''{}''\<rparr>"

definition checkout_request_of :: "string \<Rightarrow> netlify_event" where
  "checkout_request_of tok =
     \<lparr>httpMethod = ''POST'', path = ''/.netlify/functions/stripe-payments/create-checkout'',
      authorization = Some (''Bearer '' @ tok), stripe_signature = None,
      event_body = ''{...}''\<rparr>"





definition failed_mismatch :: stripe_event where
  "failed_mismatch = \<lparr>event_id = ''evt_8'', created = 1000,
       event_data = InvoicePaymentFailed
         (invoice_1\<lparr>invoice_customer := ''cus_2'', metadata_user_id := Some ''u1''\<rparr>)\<rparr>"

definition keeps_references :: "database \<Rightarrow> database \<Rightarrow> bool" where
  "keeps_references db db' =
     list_all2
       (\<lambda>u u'. uid u' = uid u \<and>
          (truthy (stripe_customer_id u) \<longrightarrow> stripe_customer_id u' = stripe_customer_id u))
       (users db) (users db')"

definition carol_session :: "string \<Rightarrow> session_params" where
  "carol_session c =
     \<lparr>customer = c, price = Some ''price_1'',
      success_url = Some ''https://app.example.com/ok'',
      cancel_url = Some ''https://app.example.com/back'',
      trial_period_days = 14, subscription_metadata_user_id = ''u3''\<rparr>"

definition after_first_checkout :: database where
  "after_first_checkout =
     \<lparr>users = [carol\<lparr>stripe_customer_id := Some ''cus_for_u3''\<rparr>], payments = []\<rparr>"

section \<open>Properties\<close>

subsection \<open>The store and the dates\<close>

lemma users_update_users:
  "users (update_users sel upd db) = map (\<lambda>u. if sel u then upd u else u) (users db)"
  by (simp add: update_users_def)

lemma payments_update_users: "payments (update_users sel upd db) = payments db"
  by (simp add: update_users_def)

lemma users_insert_payment: "users (insert_payment db row) = users db"
  by (simp add: insert_payment_def)

lemma payments_insert_payment:
  "payments (insert_payment db row) =
     (if payment_accepted db row then payments db @ [row] else payments db)"
  by (simp add: insert_payment_def)



lemmas store_simps =
  users_update_users payments_update_users users_insert_payment payments_insert_payment

lemma date_of_unix_time:
  assumes "unix_time t"
  shows "date_of_seconds (Some t) = Some (t * 1000)"
    and "timestamp_accepted (date_of_seconds (Some t))"
    and "timestamp_accepted (Some (t * 1000))"
  using assms
  by (simp_all add: unix_time_def date_of_seconds_def new_Date_def timestamp_accepted_def)



lemma amount_fits:
  assumes "\<bar>c\<bar> < 10000000000"
  shows "\<bar>of_int c / 100 :: rat\<bar> < 100000000"
proof -
  have "\<bar>of_int c :: rat\<bar> < 10000000000"
    using assms by (metis of_int_abs of_int_less_iff of_int_numeral)
  then show ?thesis by simp
qed


lemma failed_payment_accepted:
  "payment_accepted db (failed_payment failedInvoice) \<longleftrightarrow>
     references_users db (metadata_user_id failedInvoice)
     \<and> \<bar>of_int (amount_due failedInvoice) / 100 :: rat\<bar> < 100000000"
  by (simp add: payment_accepted_def failed_payment_def timestamp_accepted_def)

lemma switch_succeeded_users:
  assumes "event_data e = InvoicePaymentSucceeded invoice"
  shows "users (fst (switch_event db e)) =
     (case lines_data invoice of
        [] \<Rightarrow> users db
      | line # _ \<Rightarrow>
          if timestamp_accepted (date_of_seconds (Some (period_end line)))
          then map (\<lambda>u. if has_customer (invoice_customer invoice) u
                         then u\<lparr>subscription_status := Some ''active'',
                                subscription_ends_at := date_of_seconds (Some (period_end line))\<rparr>
                         else u) (users db)
          else users db)"
  using assms
  by (simp add: switch_event_def store_simps Let_def split: list.split)



lemma switch_deleted_users:
  assumes "event_data e = CustomerSubscriptionDeleted sub"
  shows "users (fst (switch_event db e)) =
     (if timestamp_accepted (date_of_seconds (ended_at sub))
      then map (\<lambda>u. if has_customer (subscription_customer sub) u
                     then u\<lparr>subscription_status := Some ''cancelled'',
                            subscription_ends_at := date_of_seconds (ended_at sub)\<rparr>
                     else u) (users db)
      else users db)"
  using assms by (simp add: switch_event_def store_simps Let_def)

lemma switch_failed_users:
  assumes "event_data e = InvoicePaymentFailed failedInvoice"
  shows "users (fst (switch_event db e)) =
     map (\<lambda>u. if has_customer (invoice_customer failedInvoice) u
               then u\<lparr>subscription_status := Some ''past_due''\<rparr> else u) (users db)"
  using assms by (simp add: switch_event_def store_simps)

lemma switch_failed_payments:
  assumes "event_data e = InvoicePaymentFailed failedInvoice"
  shows "payments (fst (switch_event db e)) =
     (if payment_accepted db (failed_payment failedInvoice)
      then payments db @ [failed_payment failedInvoice] else payments db)"
  using assms by (simp add: switch_event_def store_simps)

lemmas sample_data =
  alice_def bob_def carol_def one_account_def two_accounts_def no_customer_yet_def
  invoice_1_def paid_1_def cancelled_1_def completed_2_def failed_1_def
  failed_unknown_client_def paid_no_lines_def failed_3_def failed_mismatch_def

lemmas evaluation =
  switch_event_def store_simps payment_accepted_def references_users_def
  succeeded_payment_def failed_payment_def date_of_seconds_def new_Date_def
  timestamp_accepted_def has_customer_def Let_def


subsection \<open>Replaying a settled invoice\<close>





subsection \<open>A late payment after a cancellation\<close>

text \<open>
  Claim C2, as amended. The handler never reads an event's timestamp. After
  \<^verbatim>\<open>customer.subscription.deleted\<close> and then \<^verbatim>\<open>invoice.payment_succeeded\<close> for an
  invoice whose first line's period ends at a time from 1970 to the year 9999, every
  account with the invoice's customer id has the status \<^verbatim>\<open>active\<close>, whatever the two
  events' timestamps: the event applied last wins.
\<close>

theorem cancelled_then_succeeded_is_active:
  assumes "event_data e1 = CustomerSubscriptionDeleted sub"
    and "event_data e2 = InvoicePaymentSucceeded invoice"
    and "lines_data invoice = line # rest"
    and "unix_time (period_end line)"
  shows "list_all2
           (\<lambda>u u'. has_customer (invoice_customer invoice) u \<longrightarrow>
                    subscription_status u' = Some ''active'')
           (users db) (users (fst (switch_event (fst (switch_event db e1)) e2)))"
  by (simp add: switch_succeeded_users [OF assms(2)] switch_deleted_users [OF assms(1)] assms(3)
      date_of_unix_time [OF assms(4)] list_all2_map2 list_all2_same has_customer_def o_def)

text \<open>
  Claim C2 as stated fails: the payment event was created before the cancellation and is
  applied after it; the account, cancelled in between, ends \<^verbatim>\<open>active\<close>.
\<close>

theorem stale_payment_uncancels:
  "created paid_1 < created cancelled_1
   \<and> map subscription_status (users (fst (switch_event one_account cancelled_1))) = [Some ''cancelled'']
   \<and> map subscription_status
        (users (fst (switch_event (fst (switch_event one_account cancelled_1)) paid_1))) =
       [Some ''active'']"
  by (simp add: evaluation sample_data)

theorem cancelled_then_succeeded_is_active_witness:
  "event_data cancelled_1 = CustomerSubscriptionDeleted
       \<lparr>subscription_customer = ''cus_1'', ended_at = Some 2000\<rparr>
   \<and> event_data paid_1 = InvoicePaymentSucceeded invoice_1
   \<and> lines_data invoice_1 = [\<lparr>period_start = 400, period_end = 1000\<rparr>]
   \<and> unix_time (period_end \<lparr>period_start = 400, period_end = 1000\<rparr>)
   \<and> has_customer (invoice_customer invoice_1) alice
   \<and> list_all2
        (\<lambda>u u'. has_customer (invoice_customer invoice_1) u \<longrightarrow>
                 subscription_status u' = Some ''active'')
        (users one_account)
        (users (fst (switch_event (fst (switch_event one_account cancelled_1)) paid_1)))"
proof -
  have h1: "event_data cancelled_1 = CustomerSubscriptionDeleted
       \<lparr>subscription_customer = ''cus_1'', ended_at = Some 2000\<rparr>"
    by (simp add: cancelled_1_def)
  have h2: "event_data paid_1 = InvoicePaymentSucceeded invoice_1"
    by (simp add: paid_1_def)
  have h3: "lines_data invoice_1 = [\<lparr>period_start = 400, period_end = 1000\<rparr>]"
    by (simp add: invoice_1_def)
  have h4: "unix_time (period_end \<lparr>period_start = 400, period_end = 1000\<rparr>)"
    by (simp add: unix_time_def)
  have h5: "has_customer (invoice_customer invoice_1) alice"
    by (simp add: has_customer_def invoice_1_def alice_def)
  show ?thesis
    using h1 h2 h3 h4 h5 cancelled_then_succeeded_is_active [OF h1 h2 h3 h4, of one_account]
    by simp
qed

subsection \<open>The period end\<close>

text \<open>
  Claim C3, as amended. \<^verbatim>\<open>invoice.payment_succeeded\<close> for an invoice whose first
  line's period ends at a time from 1970 to the year 9999 sets \<^verbatim>\<open>subscription_ends_at\<close>
  of every account with the invoice's customer id to that end, in milliseconds, whether
  that is later or earlier than the value before; every other account keeps its value.
\<close>

theorem succeeded_overwrites_period_end:
  assumes "event_data e = InvoicePaymentSucceeded invoice"
    and "lines_data invoice = line # rest"
    and "unix_time (period_end line)"
  shows "list_all2
           (\<lambda>u u'. subscription_ends_at u' =
              (if has_customer (invoice_customer invoice) u
               then Some (period_end line * 1000) else subscription_ends_at u))
           (users db) (users (fst (switch_event db e)))"
  by (simp add: switch_succeeded_users [OF assms(1)] assms(2) date_of_unix_time [OF assms(3)]
      list_all2_map2 list_all2_same)

text \<open>
  Claim C3 as stated fails: an account whose period ends at 2000 s is moved back to
  1000 s by an invoice whose period ends there.
\<close>

theorem period_end_moves_backward:
  "map subscription_ends_at (users one_account) = [Some 2000000]
   \<and> map subscription_ends_at (users (fst (switch_event one_account paid_1))) = [Some 1000000]"
  by (simp add: evaluation sample_data)

theorem succeeded_overwrites_period_end_witness:
  "event_data paid_1 = InvoicePaymentSucceeded invoice_1
   \<and> lines_data invoice_1 = [\<lparr>period_start = 400, period_end = 1000\<rparr>]
   \<and> unix_time (period_end \<lparr>period_start = 400, period_end = 1000\<rparr>)
   \<and> list_all2
        (\<lambda>u u'. subscription_ends_at u' =
           (if has_customer (invoice_customer invoice_1) u
            then Some (period_end \<lparr>period_start = 400, period_end = 1000\<rparr> * 1000)
            else subscription_ends_at u))
        (users one_account) (users (fst (switch_event one_account paid_1)))"
proof -
  have h1: "event_data paid_1 = InvoicePaymentSucceeded invoice_1"
    by (simp add: paid_1_def)
  have h2: "lines_data invoice_1 = [\<lparr>period_start = 400, period_end = 1000\<rparr>]"
    by (simp add: invoice_1_def)
  have h3: "unix_time (period_end \<lparr>period_start = 400, period_end = 1000\<rparr>)"
    by (simp add: unix_time_def)
  show ?thesis
    using h1 h2 h3 succeeded_overwrites_period_end [OF h1 h2 h3, of one_account] by simp
qed

lemma switch_completed_users:
  assumes "event_data e = CheckoutSessionCompleted session"
  shows "users (fst (switch_event db e)) =
     map (\<lambda>u. if has_customer (session_customer session) u
               then u\<lparr>stripe_subscription_id := session_subscription session,
                      subscription_status := Some ''active'',
                      subscription_plan := Some ''premium''\<rparr>
               else u) (users db)"
  using assms by (simp add: switch_event_def store_simps)

lemma list_all2_map_self: "list_all2 P xs (map f xs) = (\<forall>x\<in>set xs. P x (f x))"
  by (simp add: list_all2_map2 list_all2_same)

subsection \<open>The plan after checkout\<close>

text \<open>
  Claim C10. \<^verbatim>\<open>checkout.session.completed\<close> sets \<^verbatim>\<open>subscription_plan\<close> of every
  account with the session's customer id to the literal \<^verbatim>\<open>premium\<close>, for every session
  and whatever plan the account had; the case raises no exception.
\<close>

theorem checkout_completed_sets_premium:
  assumes "event_data e = CheckoutSessionCompleted session"
  shows "list_all2
           (\<lambda>u u'. has_customer (session_customer session) u \<longrightarrow>
                    subscription_plan u' = Some ''premium'')
           (users db) (users (fst (switch_event db e)))
         \<and> snd (switch_event db e) = None"
proof -
  have "snd (switch_event db e) = None"
    using assms by (simp add: switch_event_def)
  then show ?thesis
    by (simp add: switch_completed_users [OF assms] list_all2_map2 list_all2_same)
qed

theorem checkout_completed_sets_premium_witness:
  "has_customer ''cus_2'' bob
   \<and> list_all2 (\<lambda>u u'. has_customer ''cus_2'' u \<longrightarrow> subscription_plan u' = Some ''premium'')
        (users two_accounts) (users (fst (switch_event two_accounts completed_2)))
   \<and> snd (switch_event two_accounts completed_2) = None"
proof -
  have h: "event_data completed_2 = CheckoutSessionCompleted
       \<lparr>session_customer = ''cus_2'', session_subscription = Some ''sub_2''\<rparr>"
    by (simp add: completed_2_def)
  have b: "has_customer ''cus_2'' bob"
    by (simp add: has_customer_def bob_def)
  show ?thesis
    using b checkout_completed_sets_premium [OF h, of two_accounts] by simp
qed

lemma route_webhook_request: "route (webhook_request sig) = ''webhook''"
  by (simp add: route_def webhook_request_def)

lemma route_checkout_request: "route (checkout_request_of tok) = ''create-checkout''"
  by (simp add: route_def checkout_request_of_def)

lemma handler_webhook:
  assumes "route event = ''webhook''" and "httpMethod event = ''POST''"
  shows "handler env db event = webhook env db event"
  using assms by (simp add: handler_def)

subsection \<open>A webhook that fails verification\<close>

text \<open>
  Claim C4. When \<^verbatim>\<open>constructEvent\<close> throws on a request to the webhook route
  (the signature header is missing or malformed, or does not match the raw body under the
  secret), the handler answers 400 with the body \<^verbatim>\<open>{error: 'Invalid signature'}\<close>, the
  switch on the event type is not entered, and the database (every account and every
  payment record) is the one before; no call to Stripe's API is made.
\<close>

theorem invalid_signature_rejected:
  assumes "route event = ''webhook''" and "httpMethod event = ''POST''"
    and "constructEvent env (event_body event) (stripe_signature event)
           (STRIPE_WEBHOOK_SECRET env) = Inl err"
  shows "handler env db event =
           \<lparr>response = \<lparr>statusCode = 400, body = Error ''Invalid signature''\<rparr>,
            database_after = db, stripe_calls = []\<rparr>"
  using assms(3) by (simp add: handler_webhook [OF assms(1,2)] webhook_def respond_def)

theorem invalid_signature_rejected_witness:
  "route (webhook_request None) = ''webhook''
   \<and> httpMethod (webhook_request None) = ''POST''
   \<and> handler (stub paid_1) one_account (webhook_request None) =
       \<lparr>response = \<lparr>statusCode = 400, body = Error ''Invalid signature''\<rparr>,
        database_after = one_account, stripe_calls = []\<rparr>
   \<and> handler (stub paid_1) one_account (webhook_request (Some ''t=1,v1=bad'')) =
       \<lparr>response = \<lparr>statusCode = 400, body = Error ''Invalid signature''\<rparr>,
        database_after = one_account, stripe_calls = []\<rparr>"
proof -
  have m: "httpMethod (webhook_request sig) = ''POST''" for sig
    by (simp add: webhook_request_def)
  have c1: "constructEvent (stub paid_1) (event_body (webhook_request None))
      (stripe_signature (webhook_request None)) (STRIPE_WEBHOOK_SECRET (stub paid_1)) =
      Inl ''No signatures found matching the expected signature for payload''"
    by (simp add: stub_def webhook_request_def)
  have c2: "constructEvent (stub paid_1) (event_body (webhook_request (Some ''t=1,v1=bad'')))
      (stripe_signature (webhook_request (Some ''t=1,v1=bad''))) (STRIPE_WEBHOOK_SECRET (stub paid_1)) =
      Inl ''No signatures found matching the expected signature for payload''"
    by (simp add: stub_def webhook_request_def)
  show ?thesis
    using route_webhook_request m
      invalid_signature_rejected [OF route_webhook_request m c1, of one_account]
      invalid_signature_rejected [OF route_webhook_request m c2, of one_account]
    by simp
qed


lemma webhook_verified:
  assumes "constructEvent env (event_body event) (stripe_signature event)
             (STRIPE_WEBHOOK_SECRET env) = Inr e"
  shows "database_after (webhook env db event) = fst (switch_event db e)"
    and "response (webhook env db event) =
           (case snd (switch_event db e) of
              None \<Rightarrow> \<lparr>statusCode = 200, body = Received True\<rparr>
            | Some m \<Rightarrow> \<lparr>statusCode = 500, body = Error m\<rparr>)"
  using assms
  by (simp_all add: webhook_def respond_def caught_def split: prod.split option.split)

subsection \<open>What a webhook response can carry\<close>

text \<open>
  Claim C9, as amended. The response to a request on the webhook route is the
  acknowledgement \<^verbatim>\<open>{received: true}\<close> with status 200, or the fixed
  \<^verbatim>\<open>{error: 'Invalid signature'}\<close> with status 400, or, when the processing of a
  verified event throws, status 500 with \<^verbatim>\<open>{error: m}\<close> where \<open>m\<close> is the message
  of that exception: the \<^verbatim>\<open>catch\<close> around all routes serves the webhook too.
\<close>

theorem webhook_response_bodies:
  assumes "route event = ''webhook''" and "httpMethod event = ''POST''"
  shows "response (handler env db event) = \<lparr>statusCode = 200, body = Received True\<rparr>
       \<or> response (handler env db event) = \<lparr>statusCode = 400, body = Error ''Invalid signature''\<rparr>
       \<or> (\<exists>e m. constructEvent env (event_body event) (stripe_signature event)
                    (STRIPE_WEBHOOK_SECRET env) = Inr e
                \<and> snd (switch_event db e) = Some m
                \<and> response (handler env db event) = \<lparr>statusCode = 500, body = Error m\<rparr>)"
proof (cases "constructEvent env (event_body event) (stripe_signature event)
                (STRIPE_WEBHOOK_SECRET env)")
  case (Inl err)
  then show ?thesis
    by (simp add: handler_webhook [OF assms] webhook_def respond_def)
next
  case (Inr e)
  show ?thesis
  proof (cases "snd (switch_event db e)")
    case None
    then show ?thesis
      by (simp add: handler_webhook [OF assms] webhook_verified(2) [OF Inr])
  next
    case (Some m)
    then show ?thesis
      using Inr by (simp add: handler_webhook [OF assms] webhook_verified(2) [OF Inr])
  qed
qed

text \<open>
  Claim C9 as stated fails: a verified \<^verbatim>\<open>invoice.payment_succeeded\<close> whose invoice has
  no line makes the handler answer 500 with the text of the \<^verbatim>\<open>TypeError\<close> in the body.
\<close>

theorem webhook_leaks_exception_message:
  "response (handler (stub paid_no_lines) one_account (webhook_request (Some ''t=1,v1=good''))) =
     \<lparr>statusCode = 500, body = Error ''Cannot read properties of undefined (reading 'period')''\<rparr>"
proof -
  have m: "httpMethod (webhook_request (Some ''t=1,v1=good'')) = ''POST''"
    by (simp add: webhook_request_def)
  have c: "constructEvent (stub paid_no_lines) (event_body (webhook_request (Some ''t=1,v1=good'')))
      (stripe_signature (webhook_request (Some ''t=1,v1=good'')))
      (STRIPE_WEBHOOK_SECRET (stub paid_no_lines)) = Inr paid_no_lines"
    by (simp add: stub_def webhook_request_def)
  have s: "snd (switch_event one_account paid_no_lines) =
      Some ''Cannot read properties of undefined (reading 'period')''"
    by (simp add: switch_event_def paid_no_lines_def Let_def)
  show ?thesis
    by (simp add: handler_webhook [OF route_webhook_request m] webhook_verified(2) [OF c] s)
qed

theorem webhook_response_bodies_witness:
  "route (webhook_request (Some ''t=1,v1=good'')) = ''webhook''
   \<and> httpMethod (webhook_request (Some ''t=1,v1=good'')) = ''POST''
   \<and> response (handler (stub paid_1) one_account (webhook_request (Some ''t=1,v1=good''))) =
       \<lparr>statusCode = 200, body = Received True\<rparr>"
proof -
  let ?r = "webhook_request (Some ''t=1,v1=good'')"
  have m: "httpMethod ?r = ''POST''"
    by (simp add: webhook_request_def)
  have c: "constructEvent (stub paid_1) (event_body ?r) (stripe_signature ?r)
      (STRIPE_WEBHOOK_SECRET (stub paid_1)) = Inr paid_1"
    by (simp add: stub_def webhook_request_def)
  have s: "snd (switch_event one_account paid_1) = None"
    by (simp add: switch_event_def paid_1_def invoice_1_def Let_def)
  have n: "response (handler (stub paid_1) one_account ?r) \<noteq>
      \<lparr>statusCode = 400, body = Error ''Invalid signature''\<rparr>"
    by (simp add: handler_webhook [OF route_webhook_request m] webhook_verified(2) [OF c] s)
  show ?thesis
    using route_webhook_request [of "Some ''t=1,v1=good''"] m c s n
      webhook_response_bodies [OF route_webhook_request m, of "stub paid_1" one_account]
    by auto
qed


subsection \<open>The two writes of an invoice event\<close>





subsection \<open>A failed invoice\<close>

text \<open>
  Claim C8, as amended. Let \<^verbatim>\<open>invoice.payment_failed\<close> arrive with the customer id of
  an account that is \<^verbatim>\<open>active\<close> or \<^verbatim>\<open>past_due\<close>. The account's status becomes
  \<^verbatim>\<open>past_due\<close> and its subscription id stays. A payment record with status
  \<^verbatim>\<open>failed\<close>, the message of the invoice's \<^verbatim>\<open>last_payment_error\<close> as failure reason
  and the amount \<^verbatim>\<open>amount_due / 100\<close> (7900 becomes 79) is appended when the store
  accepts the row: when the account id in the metadata is absent or an account's and
  \<^verbatim>\<open>amount_due\<close> is below 10000000000 on either side (the amount fits
  \<^verbatim>\<open>DECIMAL(10,2)\<close>). When the metadata names no account, the store rejects the row and
  no payment record is appended.
\<close>

theorem payment_failed_recorded:
  assumes "event_data e = InvoicePaymentFailed failedInvoice"
    and "u \<in> set (users db)"
    and "stripe_customer_id u = Some (invoice_customer failedInvoice)"
    and "subscription_status u = Some ''active'' \<or> subscription_status u = Some ''past_due''"
  shows "(references_users db (metadata_user_id failedInvoice)
          \<and> \<bar>amount_due failedInvoice\<bar> < 10000000000 \<longrightarrow>
            payments (fst (switch_event db e)) = payments db @
              [\<lparr>client_id = metadata_user_id failedInvoice,
                stripe_invoice_id = Some (invoice_id failedInvoice),
                stripe_charge_id = None,
                amount = of_int (amount_due failedInvoice) / 100,
                status = ''failed'',
                invoice_url = None,
                failure_reason =
                  (case last_payment_error failedInvoice of None \<Rightarrow> None | Some err \<Rightarrow> message err),
                paid_at = None\<rparr>])
       \<and> (\<not> references_users db (metadata_user_id failedInvoice) \<longrightarrow>
            payments (fst (switch_event db e)) = payments db)
       \<and> list_all2
           (\<lambda>v v'. stripe_customer_id v = Some (invoice_customer failedInvoice) \<longrightarrow>
              subscription_status v' = Some ''past_due''
              \<and> stripe_subscription_id v' = stripe_subscription_id v)
           (users db) (users (fst (switch_event db e)))
       \<and> (\<exists>u'\<in>set (users (fst (switch_event db e))).
            uid u' = uid u \<and> subscription_status u' = Some ''past_due''
            \<and> stripe_subscription_id u' = stripe_subscription_id u)
       \<and> snd (switch_event db e) = None"
proof -
  have p: "payments (fst (switch_event db e)) = payments db @ [failed_payment failedInvoice]"
    if "references_users db (metadata_user_id failedInvoice)"
      and "\<bar>amount_due failedInvoice\<bar> < 10000000000"
    using that(1) amount_fits [OF that(2)]
    by (simp add: switch_failed_payments [OF assms(1)] failed_payment_accepted)
  have q: "payments (fst (switch_event db e)) = payments db"
    if "\<not> references_users db (metadata_user_id failedInvoice)"
    using that by (simp add: switch_failed_payments [OF assms(1)] failed_payment_accepted)
  have us: "list_all2
           (\<lambda>v v'. stripe_customer_id v = Some (invoice_customer failedInvoice) \<longrightarrow>
              subscription_status v' = Some ''past_due''
              \<and> stripe_subscription_id v' = stripe_subscription_id v)
           (users db) (users (fst (switch_event db e)))"
    by (simp add: switch_failed_users [OF assms(1)] list_all2_map2 list_all2_same has_customer_def)
  have "u\<lparr>subscription_status := Some ''past_due''\<rparr> \<in> set (users (fst (switch_event db e)))"
    using assms(2,3) by (force simp: switch_failed_users [OF assms(1)] has_customer_def)
  then have m: "\<exists>u'\<in>set (users (fst (switch_event db e))).
            uid u' = uid u \<and> subscription_status u' = Some ''past_due''
            \<and> stripe_subscription_id u' = stripe_subscription_id u"
    by (rule bexI [rotated]) simp
  have n: "snd (switch_event db e) = None"
    using assms(1) by (simp add: switch_event_def)
  from p q us m n show ?thesis
    by (simp add: failed_payment_def)
qed

text \<open>
  Claim C8 as stated fails: the account is \<^verbatim>\<open>active\<close> and the failed invoice carries its
  customer id, but the metadata names an unknown account; the ledger is as before.
\<close>

theorem failed_invoice_not_recorded:
  "alice \<in> set (users one_account)
   \<and> subscription_status alice = Some ''active''
   \<and> event_data failed_unknown_client =
       InvoicePaymentFailed (invoice_1\<lparr>metadata_user_id := Some ''u9''\<rparr>)
   \<and> stripe_customer_id alice =
       Some (invoice_customer (invoice_1\<lparr>metadata_user_id := Some ''u9''\<rparr>))
   \<and> payments (fst (switch_event one_account failed_unknown_client)) = payments one_account
   \<and> payments one_account = []"
  by (simp add: evaluation sample_data)

theorem payment_failed_recorded_witness:
  "event_data failed_1 = InvoicePaymentFailed invoice_1
   \<and> alice \<in> set (users one_account)
   \<and> stripe_customer_id alice = Some (invoice_customer invoice_1)
   \<and> subscription_status alice = Some ''active''
   \<and> references_users one_account (metadata_user_id invoice_1)
   \<and> amount_due invoice_1 = 7900
   \<and> payments (fst (switch_event one_account failed_1)) =
       [\<lparr>client_id = Some ''u1'', stripe_invoice_id = Some ''in_1'', stripe_charge_id = None,
         amount = 79, status = ''failed'', invoice_url = None,
         failure_reason = Some ''card_declined'', paid_at = None\<rparr>]
   \<and> map subscription_status (users (fst (switch_event one_account failed_1))) = [Some ''past_due'']
   \<and> map stripe_subscription_id (users (fst (switch_event one_account failed_1))) = [Some ''sub_1'']"
proof -
  have h1: "event_data failed_1 = InvoicePaymentFailed invoice_1"
    by (simp add: failed_1_def)
  have h2: "alice \<in> set (users one_account)"
    by (simp add: one_account_def)
  have h3: "stripe_customer_id alice = Some (invoice_customer invoice_1)"
    by (simp add: alice_def invoice_1_def)
  have h4: "subscription_status alice = Some ''active''"
    by (simp add: alice_def)
  have h4': "subscription_status alice = Some ''active'' \<or> subscription_status alice = Some ''past_due''"
    using h4 by simp
  have fk: "references_users one_account (metadata_user_id invoice_1)"
    by (simp add: references_users_def one_account_def alice_def invoice_1_def)
  have v: "amount_due invoice_1 = 7900" "invoice_id invoice_1 = ''in_1''"
    "last_payment_error invoice_1 = Some \<lparr>message = Some ''card_declined''\<rparr>"
    "metadata_user_id invoice_1 = Some ''u1''" "payments one_account = []"
    "stripe_subscription_id alice = Some ''sub_1''" "users one_account = [alice]"
    by (simp_all add: invoice_1_def alice_def one_account_def)
  show ?thesis
    using h1 h2 h3 h4 fk v payment_failed_recorded [OF h1 h2 h3 h4']
    by (auto simp: list_all2_Cons1)
qed






subsection \<open>Which accounts an event reaches\<close>




lemma select_user_unique:
  assumes "select_user db i = Some r" and "u \<in> set (users db)" and "uid u = i"
  shows "u = r"
proof -
  from assms(1) have "filter (\<lambda>u. uid u = i) (users db) = [r]"
    by (auto simp: select_user_def single_def split: list.splits)
  moreover from assms(2,3) have "u \<in> set (filter (\<lambda>u. uid u = i) (users db))"
    by simp
  ultimately show ?thesis by simp
qed

lemma keeps_references_refl: "keeps_references db db"
  by (simp add: keeps_references_def list_all2_same)

lemma database_after_respond: "database_after (respond code b db calls) = db"
  by (simp add: respond_def)

lemma database_after_caught: "database_after (caught m db calls) = db"
  by (simp add: caught_def respond_def)

lemma database_after_create_session:
  "database_after (create_session env db calls user req c) = db"
  by (simp add: create_session_def Let_def database_after_respond database_after_caught
      split: sum.split)

lemma stripe_calls_create_session:
  "stripe_calls (create_session env db calls user req c) =
     calls @ [CheckoutSessionsCreate
       \<lparr>customer = c, price = priceId req, success_url = successUrl req,
        cancel_url = cancelUrl req, trial_period_days = 14,
        subscription_metadata_user_id = userId user\<rparr>]"
  by (simp add: create_session_def Let_def respond_def caught_def split: sum.split)

lemma keeps_references_new_customer:
  assumes "select_user db i = Some userData" and "\<not> truthy (stripe_customer_id userData)"
  shows "keeps_references db
           (update_users (\<lambda>u. uid u = i) (\<lambda>u. u\<lparr>stripe_customer_id := Some c\<rparr>) db)"
  unfolding keeps_references_def users_update_users list_all2_map_self
proof
  fix u assume "u \<in> set (users db)"
  show "uid (if uid u = i then u\<lparr>stripe_customer_id := Some c\<rparr> else u) = uid u \<and>
        (truthy (stripe_customer_id u) \<longrightarrow>
         stripe_customer_id (if uid u = i then u\<lparr>stripe_customer_id := Some c\<rparr> else u) =
         stripe_customer_id u)"
  proof (cases "uid u = i")
    case True
    have "u = userData"
      using assms(1) \<open>u \<in> set (users db)\<close> True by (rule select_user_unique)
    with assms(2) True show ?thesis by simp
  next
    case False
    then show ?thesis by simp
  qed
qed

lemma keeps_references_create_checkout:
  "keeps_references db (database_after (create_checkout env db event))"
proof (cases "verifyToken env (authorization event)")
  case None
  then show ?thesis
    by (simp add: create_checkout_def database_after_respond keeps_references_refl)
next
  case (Some user)
  show ?thesis
  proof (cases "json_parse env (event_body event)")
    case (Inl m)
    with Some show ?thesis
      by (simp add: create_checkout_def database_after_caught keeps_references_refl)
  next
    case (Inr req)
    show ?thesis
    proof (cases "select_user db (userId user)")
      case None
      with Some Inr show ?thesis
        by (simp add: create_checkout_def database_after_caught keeps_references_refl)
    next
      case sel: (Some userData)
      show ?thesis
      proof (cases "truthy (stripe_customer_id userData)")
        case True
        with Some Inr sel show ?thesis
          by (simp add: create_checkout_def database_after_create_session keeps_references_refl)
      next
        case False
        show ?thesis
        proof (cases "customers_create env (email userData) (userId user)")
          case (Inl m)
          with Some Inr sel False show ?thesis
            by (simp add: create_checkout_def database_after_caught keeps_references_refl)
        next
          case new: (Inr customerId)
          with Some Inr sel False show ?thesis
            by (simp add: create_checkout_def database_after_create_session
                keeps_references_new_customer [OF sel False])
        qed
      qed
    qed
  qed
qed

lemma handler_create_checkout:
  assumes "route event = ''create-checkout''" and "httpMethod event = ''POST''"
  shows "handler env db event = create_checkout env db event"
  using assms by (simp add: handler_def)

subsection \<open>The customer of a checkout\<close>

text \<open>
  Claim C7. On the checkout route, for an authenticated caller whose account holds a
  non-empty \<^verbatim>\<open>stripe_customer_id\<close>, the database after the request is the one before
  and the only call to Stripe is the creation of the checkout session, for that very
  customer id: no customer is created. Whatever the account held before, a checkout
  request keeps every account's id and every non-empty customer reference, and so does a
  second checkout request after it (with the collaborators answering as they will): the
  reference an account holds after the first request is the one it holds after the second.
\<close>

theorem checkout_reuses_customer:
  assumes "route event = ''create-checkout''" and "httpMethod event = ''POST''"
    and "route event' = ''create-checkout''" and "httpMethod event' = ''POST''"
  shows "(\<forall>user req userData c.
            verifyToken env (authorization event) = Some user
            \<and> json_parse env (event_body event) = Inr req
            \<and> select_user db (userId user) = Some userData
            \<and> stripe_customer_id userData = Some c \<and> c \<noteq> [] \<longrightarrow>
              database_after (handler env db event) = db
            \<and> stripe_calls (handler env db event) =
                [CheckoutSessionsCreate
                  \<lparr>customer = c, price = priceId req, success_url = successUrl req,
                   cancel_url = cancelUrl req, trial_period_days = 14,
                   subscription_metadata_user_id = userId user\<rparr>])
       \<and> keeps_references db (database_after (handler env db event))
       \<and> keeps_references (database_after (handler env db event))
           (database_after (handler env' (database_after (handler env db event)) event'))"
proof (intro conjI allI impI)
  fix user req userData c
  assume a: "verifyToken env (authorization event) = Some user
            \<and> json_parse env (event_body event) = Inr req
            \<and> select_user db (userId user) = Some userData
            \<and> stripe_customer_id userData = Some c \<and> c \<noteq> []"
  then have t: "truthy (stripe_customer_id userData)"
    by (simp add: truthy_def)
  from a t show "database_after (handler env db event) = db"
    by (simp add: handler_create_checkout [OF assms(1,2)] create_checkout_def
        database_after_create_session)
  from a t show "stripe_calls (handler env db event) =
                [CheckoutSessionsCreate
                  \<lparr>customer = c, price = priceId req, success_url = successUrl req,
                   cancel_url = cancelUrl req, trial_period_days = 14,
                   subscription_metadata_user_id = userId user\<rparr>]"
    by (simp add: handler_create_checkout [OF assms(1,2)] create_checkout_def
        stripe_calls_create_session)
next
  show "keeps_references db (database_after (handler env db event))"
    by (simp add: handler_create_checkout [OF assms(1,2)] keeps_references_create_checkout)
  show "keeps_references (database_after (handler env db event))
           (database_after (handler env' (database_after (handler env db event)) event'))"
    by (simp add: handler_create_checkout [OF assms(3,4)] keeps_references_create_checkout)
qed


theorem checkout_reuses_customer_witness:
  "route (checkout_request_of ''token-u3'') = ''create-checkout''
   \<and> httpMethod (checkout_request_of ''token-u3'') = ''POST''
   \<and> verifyToken (stub paid_1) (authorization (checkout_request_of ''token-u3'')) =
       Some \<lparr>userId = ''u3'', role = ''client''\<rparr>
   \<and> select_user after_first_checkout ''u3'' =
       Some (carol\<lparr>stripe_customer_id := Some ''cus_for_u3''\<rparr>)
   \<and> stripe_calls (handler (stub paid_1) no_customer_yet (checkout_request_of ''token-u3'')) =
       [CustomersCreate ''carol@example.com'' ''u3'',
        CheckoutSessionsCreate (carol_session ''cus_for_u3'')]
   \<and> database_after (handler (stub paid_1) no_customer_yet (checkout_request_of ''token-u3'')) =
       after_first_checkout
   \<and> database_after (handler (stub paid_1) after_first_checkout (checkout_request_of ''token-u3'')) =
       after_first_checkout
   \<and> stripe_calls (handler (stub paid_1) after_first_checkout (checkout_request_of ''token-u3'')) =
       [CheckoutSessionsCreate (carol_session ''cus_for_u3'')]
   \<and> keeps_references no_customer_yet after_first_checkout"
proof -
  let ?r = "checkout_request_of ''token-u3''"
  let ?env = "stub paid_1"
  let ?user = "\<lparr>userId = ''u3'', role = ''client''\<rparr>"
  let ?req = "\<lparr>priceId = Some ''price_1'', successUrl = Some ''https://app.example.com/ok'',
               cancelUrl = Some ''https://app.example.com/back''\<rparr>"
  have m: "httpMethod ?r = ''POST''"
    by (simp add: checkout_request_of_def)
  have v: "verifyToken ?env (authorization ?r) = Some ?user"
    by (simp add: verifyToken_def stub_def checkout_request_of_def)
  have j: "json_parse ?env (event_body ?r) = Inr ?req"
    by (simp add: stub_def checkout_request_of_def)
  have s0: "select_user no_customer_yet ''u3'' = Some carol"
    by (simp add: select_user_def single_def no_customer_yet_def carol_def)
  have s1: "select_user after_first_checkout ''u3'' =
      Some (carol\<lparr>stripe_customer_id := Some ''cus_for_u3''\<rparr>)"
    by (simp add: select_user_def single_def after_first_checkout_def carol_def)
  have first: "handler ?env no_customer_yet ?r =
      \<lparr>response = \<lparr>statusCode = 200,
          body = Checkout (Some ''https://checkout.stripe.com/c/cs_1'') ''cs_1''\<rparr>,
       database_after = after_first_checkout,
       stripe_calls = [CustomersCreate ''carol@example.com'' ''u3'',
                       CheckoutSessionsCreate (carol_session ''cus_for_u3'')]\<rparr>"
    using v j s0
    by (simp add: handler_create_checkout [OF route_checkout_request m] create_checkout_def)
      (simp add: carol_def truthy_def stub_def create_session_def respond_def Let_def
        update_users_def no_customer_yet_def after_first_checkout_def carol_session_def)
  have second: "database_after (handler ?env after_first_checkout ?r) = after_first_checkout
      \<and> stripe_calls (handler ?env after_first_checkout ?r) =
          [CheckoutSessionsCreate (carol_session ''cus_for_u3'')]"
    using v j s1
      checkout_reuses_customer [OF route_checkout_request m route_checkout_request m,
        of ?env after_first_checkout ?env,
        THEN conjunct1, THEN spec, THEN spec, THEN spec, THEN spec,
        of ?user ?req "carol\<lparr>stripe_customer_id := Some ''cus_for_u3''\<rparr>" "''cus_for_u3''"]
    by (simp add: carol_session_def)
  have keeps: "keeps_references no_customer_yet after_first_checkout"
    using first
      checkout_reuses_customer [OF route_checkout_request m route_checkout_request m,
        of ?env no_customer_yet ?env]
    by simp
  from route_checkout_request m v s1 first second keeps show ?thesis
    by simp
qed

end
